theory Spec2Isabelle
  imports Complex_Main "HOL-Library.Sublist" "HOL-Library.AList"
begin

section \<open>Strings and dictionaries\<close>

text \<open>
  A Python \<open>str\<close> is modelled as a \<open>string\<close>, one \<open>char\<close> per character of the
  ASCII range; text outside ASCII is carried as its bytes, and \<open>lower()\<close> and
  \<open>strip()\<close> act on the ASCII range only.  \<open>needle in hay\<close> on strings is
  \<open>sublist needle hay\<close>.  A \<open>dict\<close> is an association list in insertion order;
  \<open>d[k] = v\<close> is \<open>AList.update k v d\<close>, which replaces the value of a key that is
  present where it stands and appends a new key at the end, as Python does.
\<close>

definition lower_char :: "char \<Rightarrow> char" where
  "lower_char c =
     (case map_of (zip ''ABCDEFGHIJKLMNOPQRSTUVWXYZ'' ''abcdefghijklmnopqrstuvwxyz'') c of
        Some l \<Rightarrow> l
      | None \<Rightarrow> c)"

definition lower :: "string \<Rightarrow> string" where
  "lower s = map lower_char s"

definition any_in :: "string list \<Rightarrow> string \<Rightarrow> bool" where
  "any_in markers s = list_ex (\<lambda>x. sublist x s) markers"

type_synonym 'v dict = "(string \<times> 'v) list"

definition dict_update :: "'v dict \<Rightarrow> 'v dict \<Rightarrow> 'v dict" where
  "dict_update d other = foldl (\<lambda>acc (k, v). AList.update k v acc) d other"

section \<open>Values and floats\<close>

text \<open>
  An exception is carried as its message, the text \<open>str(e)\<close> gives.  A value stored in a
  metadata record is a string, an integer, a float or \<open>None\<close>.
\<close>

type_synonym exn = string

datatype 'f val = VStr string | VInt int | VFloat 'f | VNone

type_synonym 'f metadata = "'f val dict"

text \<open>
  Python's float arithmetic is taken as a parameter: a record of the operations the
  code uses, over a type \<open>'f\<close> of floats.  \<open>fl_lit\<close> is a float literal (and an integer
  literal met by a float operand), \<open>fl_of_int\<close> and \<open>fl_of_str\<close> are \<open>float(i)\<close> and
  \<open>float(s)\<close> (\<open>None\<close> where they raise), \<open>fl_trunc\<close> is \<open>int(x)\<close>, \<open>fl_fmt n\<close> is the
  format \<open>:.nf\<close>, and \<open>fl_str\<close> is \<open>str(x)\<close>.
\<close>

record 'f pyfloat =
  fl_lit :: "rat \<Rightarrow> 'f"
  fl_add :: "'f \<Rightarrow> 'f \<Rightarrow> 'f"
  fl_sub :: "'f \<Rightarrow> 'f \<Rightarrow> 'f"
  fl_mul :: "'f \<Rightarrow> 'f \<Rightarrow> 'f"
  fl_div :: "'f \<Rightarrow> 'f \<Rightarrow> 'f"
  fl_neg :: "'f \<Rightarrow> 'f"
  fl_abs :: "'f \<Rightarrow> 'f"
  fl_negative :: "'f \<Rightarrow> bool"
  fl_of_int :: "int \<Rightarrow> 'f option"
  fl_of_str :: "string \<Rightarrow> 'f option"
  fl_trunc :: "'f \<Rightarrow> int option"
  fl_fmt :: "nat \<Rightarrow> 'f \<Rightarrow> string"
  fl_str :: "'f \<Rightarrow> string"

text \<open>\<open>str(i)\<close> on an integer: its decimal digits, after a minus sign when negative.\<close>

function show_digits :: "int \<Rightarrow> string" where
  "show_digits n =
     (if n < 10 then [''0123456789'' ! nat n]
      else show_digits (n div 10) @ [''0123456789'' ! nat (n mod 10)])"
  by pat_completeness auto
termination
  by (relation "measure nat") auto

declare show_digits.simps [simp del]

definition show_int :: "int \<Rightarrow> string" where
  "show_int i = (if i < 0 then CHR ''-'' # show_digits (- i) else show_digits i)"

definition show_nat :: "nat \<Rightarrow> string" where
  "show_nat n = show_digits (int n)"

text \<open>\<open>str(value)\<close> and \<open>float(value)\<close> on the values of a record.\<close>

fun val_str :: "'f pyfloat \<Rightarrow> 'f val \<Rightarrow> string" where
  "val_str ops (VStr s) = s"
| "val_str ops (VInt i) = show_int i"
| "val_str ops (VFloat x) = fl_str ops x"
| "val_str ops VNone = ''None''"

fun val_float :: "'f pyfloat \<Rightarrow> 'f val \<Rightarrow> 'f option" where
  "val_float ops (VStr s) = fl_of_str ops s"
| "val_float ops (VInt i) = fl_of_int ops i"
| "val_float ops (VFloat x) = Some x"
| "val_float ops VNone = None"

text \<open>\<open>s.strip()\<close> and \<open>s.split(',')\<close>.\<close>

definition is_space :: "char \<Rightarrow> bool" where
  "is_space c = (let n = (of_char c :: nat) in (9 \<le> n \<and> n \<le> 13) \<or> (28 \<le> n \<and> n \<le> 32))"

definition strip :: "string \<Rightarrow> string" where
  "strip s = rev (dropWhile is_space (rev (dropWhile is_space s)))"

fun split_on :: "char \<Rightarrow> string \<Rightarrow> string list" where
  "split_on sep [] = [[]]"
| "split_on sep (c # cs) =
     (if c = sep then [] # split_on sep cs
      else (case split_on sep cs of [] \<Rightarrow> [[c]] | p # ps \<Rightarrow> (c # p) # ps))"

text \<open>The truth value of an optional string: \<open>None\<close> and \<open>''\<close> are false.\<close>

fun truthy :: "string option \<Rightarrow> bool" where
  "truthy None = False"
| "truthy (Some s) = (s \<noteq> [])"

text \<open>The string held by an optional string that is true.\<close>

fun text_of :: "string option \<Rightarrow> string" where
  "text_of None = []"
| "text_of (Some s) = s"

section \<open>Floats as binary64 values\<close>

text \<open>
  The instance of the float operations used for concrete inputs: a finite float is the
  rational number it stands for, and every operation rounds its exact result to the
  nearest number with a 53-bit significand, ties to even, as IEEE 754 binary64 does in
  the normal range.  Infinities, NaN, the sign of zero, overflow and subnormal numbers
  are outside this instance.  \<open>float(s)\<close> on strings is a table given to the instance.
\<close>

definition pow2 :: "int \<Rightarrow> rat" where
  "pow2 e = (if e \<ge> 0 then 2 ^ nat e else 1 / 2 ^ nat (- e))"

definition pow10 :: "int \<Rightarrow> rat" where
  "pow10 e = (if e \<ge> 0 then 10 ^ nat e else 1 / 10 ^ nat (- e))"

function digits_in :: "int \<Rightarrow> int \<Rightarrow> int" where
  "digits_in b n = (if b < 2 \<or> n \<le> 0 then 0 else 1 + digits_in b (n div b))"
  by pat_completeness auto
termination
  by (relation "measure (\<lambda>(b, n). nat n)") (auto simp: int_div_less_self)

declare digits_in.simps [simp del]

text \<open>\<open>magnitude b q\<close> is the exponent \<open>e\<close> with \<open>b ^ e \<le> |q| < b ^ (e + 1)\<close>, for \<open>q \<noteq> 0\<close>.\<close>

definition magnitude :: "int \<Rightarrow> rat \<Rightarrow> int" where
  "magnitude b q =
     (let (n, d) = quotient_of \<bar>q\<bar>;
          e0 = digits_in b n - digits_in b d;
          p = (if e0 \<ge> 0 then of_int b ^ nat e0 else 1 / of_int b ^ nat (- e0))
      in if p \<le> \<bar>q\<bar> then e0 else e0 - 1)"

definition round_half_even :: "rat \<Rightarrow> int" where
  "round_half_even q =
     (let f = \<lfloor>q\<rfloor>; r = q - of_int f in
      if r < 1 / 2 then f else if r > 1 / 2 then f + 1 else if even f then f else f + 1)"

definition round64 :: "rat \<Rightarrow> rat" where
  "round64 q =
     (if q = 0 then 0
      else let ulp = pow2 (magnitude 2 q - 52) in of_int (round_half_even (q / ulp)) * ulp)"

text \<open>The format \<open>:.nf\<close>: the exact value rounded to \<open>n\<close> decimals, ties to even.\<close>

definition zero_pad :: "nat \<Rightarrow> string \<Rightarrow> string" where
  "zero_pad n s = replicate (n - length s) CHR ''0'' @ s"

definition format_fixed :: "nat \<Rightarrow> rat \<Rightarrow> string" where
  "format_fixed n x =
     (let r = round_half_even (\<bar>x\<bar> * 10 ^ n);
          whole = show_digits (r div 10 ^ n);
          frac = (if n = 0 then [] else CHR ''.'' # zero_pad n (show_digits (r mod 10 ^ n)))
      in (if x < 0 then ''-'' else []) @ whole @ frac)"

text \<open>
  \<open>str(x)\<close>: the shortest decimal that reads back as \<open>x\<close>.  \<open>sig_digits p x\<close> is \<open>|x|\<close>
  rounded to \<open>p\<close> significant digits, as the digits and the position of the decimal
  point (the value is \<open>0.digits * 10 ^ point\<close>).
\<close>

definition sig_digits :: "nat \<Rightarrow> rat \<Rightarrow> int \<times> int" where
  "sig_digits p x =
     (let k = magnitude 10 x;
          r = round_half_even (\<bar>x\<bar> / pow10 (k - int p + 1))
      in if r = 10 ^ p then (10 ^ (p - 1), k + 2) else (r, k + 1))"

definition digits_value :: "nat \<Rightarrow> int \<times> int \<Rightarrow> rat" where
  "digits_value p dp = of_int (fst dp) * pow10 (snd dp - int p)"

fun shortest_digits :: "nat \<Rightarrow> nat \<Rightarrow> rat \<Rightarrow> nat \<times> int \<times> int" where
  "shortest_digits 0 p x = (p, sig_digits p x)"
| "shortest_digits (Suc fuel) p x =
     (if round64 (digits_value p (sig_digits p x)) = \<bar>x\<bar> then (p, sig_digits p x)
      else shortest_digits fuel (Suc p) x)"

definition float_repr :: "rat \<Rightarrow> string" where
  "float_repr x =
     (if x = 0 then ''0.0''
      else
        let (p, r, point) = shortest_digits 16 1 x;
            ds = show_digits r;
            sign = (if x < 0 then ''-'' else [])
        in if - 4 < point \<and> point \<le> 16 then
             (if point \<le> 0 then sign @ ''0.'' @ replicate (nat (- point)) CHR ''0'' @ ds
              else if nat point \<ge> p then
                sign @ ds @ replicate (nat point - p) CHR ''0'' @ ''.0''
              else sign @ take (nat point) ds @ ''.'' @ drop (nat point) ds)
           else
             sign @ take 1 ds @ (if p > 1 then ''.'' @ drop 1 ds else [])
               @ ''e'' @ (if point - 1 < 0 then ''-'' else ''+'')
               @ zero_pad 2 (show_digits \<bar>point - 1\<bar>))"

definition binary64 :: "(string \<rightharpoonup> rat) \<Rightarrow> rat pyfloat" where
  "binary64 parse =
     \<lparr> fl_lit = round64,
       fl_add = (\<lambda>a b. round64 (a + b)),
       fl_sub = (\<lambda>a b. round64 (a - b)),
       fl_mul = (\<lambda>a b. round64 (a * b)),
       fl_div = (\<lambda>a b. round64 (a / b)),
       fl_neg = uminus,
       fl_abs = abs,
       fl_negative = (\<lambda>a. a < 0),
       fl_of_int = (\<lambda>i. if \<bar>i\<bar> < 2 ^ 1024 then Some (round64 (of_int i)) else None),
       fl_of_str = parse,
       fl_trunc = (\<lambda>a. Some (if a < 0 then - \<lfloor>- a\<rfloor> else \<lfloor>a\<rfloor>)),
       fl_fmt = format_fixed,
       fl_str = float_repr \<rparr>"

text \<open>
  An element of a tag's \<open>values\<close> as the tag reader gives it for a rational field: a
  ratio of two integers.  \<open>float\<close> of a ratio is the float nearest to the fraction, and
  raises on a zero denominator.
\<close>

datatype ratio = Ratio int int

fun ratio_float :: "ratio \<Rightarrow> rat option" where
  "ratio_float (Ratio n d) = (if d = 0 then None else Some (round64 (of_int n / of_int d)))"

section \<open>core.py: UltraMetadataExtractor, value normalisation and DMS conversion\<close>

text \<open>
  A raw value handed over by a tag reader, by the shape \<open>_process_exif_value\<close> tests
  for: \<open>None\<close>, a \<open>bytes\<close> object, an object with an attribute \<open>values\<close> (the
  attribute and the object itself), a list, a tuple, or any other object.  The objects of
  the reader libraries are of a type \<open>'o\<close>; what the code observes of them is a
  parameter: \<open>py_str\<close> is \<open>str(x)\<close>, which may raise, \<open>eq_empty_str\<close> and \<open>eq_zero\<close> are
  \<open>x == ""\<close> and \<open>x == 0\<close>.  \<open>decode_other\<close> is
  \<open>b.decode('utf-8', errors='ignore')\<close> on the byte strings that are not pure ASCII;
  a pure ASCII byte string decodes to itself.
\<close>

datatype 'o raw =
    RNone
  | RBytes string
  | RValues 'o 'o
  | RList "'o list"
  | RTuple "'o list"
  | RObj 'o

record 'o pyobjects =
  py_str :: "'o \<Rightarrow> exn + string"
  eq_empty_str :: "'o \<Rightarrow> bool"
  eq_zero :: "'o \<Rightarrow> bool"
  decode_other :: "string \<Rightarrow> string"

definition is_ascii :: "char \<Rightarrow> bool" where
  "is_ascii c = ((of_char c :: nat) < 128)"

definition decode_utf8_ignore :: "'o pyobjects \<Rightarrow> string \<Rightarrow> string" where
  "decode_utf8_ignore objs b = (if list_all is_ascii b then b else decode_other objs b)"

text \<open>\<open>'|'.join(str(x) for x in value)\<close>: the first \<open>str\<close> that raises ends it.\<close>

fun str_all :: "'o pyobjects \<Rightarrow> 'o list \<Rightarrow> exn + string list" where
  "str_all objs [] = Inr []"
| "str_all objs (x # xs) =
     (case py_str objs x of
        Inl e \<Rightarrow> Inl e
      | Inr s \<Rightarrow> (case str_all objs xs of Inl e \<Rightarrow> Inl e | Inr ss \<Rightarrow> Inr (s # ss)))"

fun join :: "string \<Rightarrow> string list \<Rightarrow> string" where
  "join sep [] = []"
| "join sep [s] = s"
| "join sep (s # t # ss) = s @ sep @ join sep (t # ss)"

definition join_strs :: "'o pyobjects \<Rightarrow> 'o list \<Rightarrow> string option" where
  "join_strs objs xs =
     (case str_all objs xs of
        Inl e \<Rightarrow> Some (''value_error_'' @ e)
      | Inr ss \<Rightarrow> Some (join ''|'' ss))"

text \<open>
  \<open>_process_exif_value\<close>; \<open>None\<close> is Python's \<open>None\<close>.  The outer handler turns an
  exception of a \<open>str\<close> call into the text \<open>value_error_...\<close>.
\<close>

fun process_exif_value :: "'o pyobjects \<Rightarrow> 'o raw \<Rightarrow> string option" where
  "process_exif_value objs RNone = None"
| "process_exif_value objs (RBytes v) =
     (let decoded = strip (decode_utf8_ignore objs v) in
      if decoded \<noteq> [] \<and> \<not> list_all (\<lambda>c. c \<in> set [CHR 0x00, CHR '' '']) decoded
      then Some decoded
      else Some (''binary_data_'' @ show_nat (length v) @ ''_bytes''))"
| "process_exif_value objs (RValues vals v) =
     (case py_str objs vals of
        Inr s \<Rightarrow> Some s
      | Inl _ \<Rightarrow> (case py_str objs v of Inr s \<Rightarrow> Some s | Inl e \<Rightarrow> Some (''value_error_'' @ e)))"
| "process_exif_value objs (RList xs) = (if length xs > 0 then join_strs objs xs else None)"
| "process_exif_value objs (RTuple xs) = (if length xs > 0 then join_strs objs xs else None)"
| "process_exif_value objs (RObj v) =
     (case py_str objs v of
        Inl e \<Rightarrow> Some (''value_error_'' @ e)
      | Inr s \<Rightarrow> (let str_value = strip s in if str_value \<noteq> [] then Some str_value else None))"

text \<open>
  The \<open>values\<close> of a tag as \<open>_convert_gps_coord\<close> meets them: a sequence of elements
  (for a string, its characters), or an object without a length, on which \<open>len\<close>
  raises.  \<open>float(x)\<close> on an element is the parameter \<open>to_float\<close>, \<open>None\<close> where it
  raises.
\<close>

datatype 'e pyvalues = Seq "'e list" | NoLen

fun convert_gps_coord :: "'f pyfloat \<Rightarrow> ('e \<Rightarrow> 'f option) \<Rightarrow> 'e pyvalues \<Rightarrow> 'f" where
  "convert_gps_coord ops to_float NoLen = fl_lit ops 0"
| "convert_gps_coord ops to_float (Seq values) =
     (if length values \<ge> 3 then
        (case (to_float (values ! 0), to_float (values ! 1), to_float (values ! 2)) of
           (Some d, Some m, Some s) \<Rightarrow>
             fl_add ops (fl_add ops d (fl_div ops m (fl_lit ops 60)))
               (fl_div ops s (fl_lit ops 3600))
         | _ \<Rightarrow> fl_lit ops 0)
      else if length values = 2 then
        (case (to_float (values ! 0), to_float (values ! 1)) of
           (Some d, Some m) \<Rightarrow> fl_add ops d (fl_div ops m (fl_lit ops 60))
         | _ \<Rightarrow> fl_lit ops 0)
      else if length values = 1 then
        (case to_float (values ! 0) of Some d \<Rightarrow> d | None \<Rightarrow> fl_lit ops 0)
      else fl_lit ops 0)"

section \<open>core.py: OSINTEnhancer\<close>

text \<open>
  What the enhancer calls outside the repository is a parameter, a record of services:
  the hash functions (on a string as \<open>encode()\<close> gives it), the two reverse-geocoding
  calls of the network geocoder (with and without \<open>language='en'\<close>), the offline
  gazetteer, \<open>str(metadata)\<close>, the file system, and the map renderer.  A call that may
  raise returns \<open>Inl\<close> of the exception.
\<close>

record location =
  raw_address :: "string dict"
  address :: string

record 'f stat_result =
  st_size :: int
  st_ctime :: 'f
  st_mtime :: 'f

record 'f services =
  md5_hex :: "string \<Rightarrow> string"
  sha1_hex :: "string \<Rightarrow> string"
  sha256_hex :: "string \<Rightarrow> string"
  reverse_en :: "string \<Rightarrow> exn + location option"
  reverse_plain :: "string \<Rightarrow> exn + location option"
  rg_search :: "'f \<Rightarrow> 'f \<Rightarrow> exn + string dict list"
  str_metadata :: "'f metadata \<Rightarrow> string"
  read_file :: "string \<Rightarrow> exn + string"
  os_stat :: "string \<Rightarrow> exn + 'f stat_result"
  iso_timestamp :: "'f \<Rightarrow> exn + string"
  basename :: "string \<Rightarrow> string"
  gettempdir :: "exn + string"
  path_join :: "string \<Rightarrow> string \<Rightarrow> string"
  render_map :: "'f \<Rightarrow> 'f \<Rightarrow> string \<Rightarrow> exn + unit"

text \<open>\<open>d.get(k, default)\<close> on a dictionary of strings.\<close>

definition get_or :: "string dict \<Rightarrow> string \<Rightarrow> string \<Rightarrow> string" where
  "get_or d k dflt = (case map_of d k of Some v \<Rightarrow> v | None \<Rightarrow> dflt)"

text \<open>
  A \<open>try\<close> block of assignments \<open>d[k] = e\<close>, run until the first expression that
  raises: the dictionary so far, and the exception if there was one.
\<close>

fun assign_steps :: "'v dict \<Rightarrow> (string \<times> (exn + 'v)) list \<Rightarrow> 'v dict \<times> exn option" where
  "assign_steps d [] = (d, None)"
| "assign_steps d ((k, Inl e) # rest) = (d, Some e)"
| "assign_steps d ((k, Inr v) # rest) = assign_steps (AList.update k v d) rest"

subsection \<open>_extract_coordinates\<close>

text \<open>
  The first loop over the record.  \<open>lat\<close> and \<open>lon\<close> start as \<open>None\<close>; an assignment
  whose \<open>float(value)\<close> raises is skipped.
\<close>

definition decimal_step ::
  "'f pyfloat \<Rightarrow> string \<Rightarrow> 'f val \<Rightarrow> 'f option \<times> 'f option \<Rightarrow> 'f option \<times> 'f option"
  where
  "decimal_step ops key value acc =
     (let (lat, lon) = acc; key_lower = lower key in
      if sublist ''gps'' key_lower \<and> sublist ''decimal'' key_lower then
        (if sublist ''latitude'' key_lower then
           (case val_float ops value of Some x \<Rightarrow> (Some x, lon) | None \<Rightarrow> (lat, lon))
         else if sublist ''longitude'' key_lower then
           (case val_float ops value of Some x \<Rightarrow> (lat, Some x) | None \<Rightarrow> (lat, lon))
         else (lat, lon))
      else (lat, lon))"

fun scan_decimal :: "'f pyfloat \<Rightarrow> 'f metadata \<Rightarrow> 'f option \<times> 'f option \<Rightarrow> 'f option \<times> 'f option"
  where
  "scan_decimal ops [] acc = acc"
| "scan_decimal ops ((key, value) # rest) acc = scan_decimal ops rest (decimal_step ops key value acc)"

text \<open>
  The second loop: \<open>lat\<close> is assigned before \<open>float\<close> of the second part is tried, so a
  failure there keeps the new \<open>lat\<close>.
\<close>

definition coordinates_step ::
  "'f pyfloat \<Rightarrow> string \<Rightarrow> 'f val \<Rightarrow> 'f option \<times> 'f option \<Rightarrow> 'f option \<times> 'f option"
  where
  "coordinates_step ops key value acc =
     (let (lat, lon) = acc in
      if sublist ''coordinates'' (lower key) then
        (case split_on CHR '','' (val_str ops value) of
           [a, b] \<Rightarrow>
             (case fl_of_str ops (strip a) of
                None \<Rightarrow> (lat, lon)
              | Some x \<Rightarrow>
                  (case fl_of_str ops (strip b) of
                     None \<Rightarrow> (Some x, lon)
                   | Some y \<Rightarrow> (Some x, Some y)))
         | _ \<Rightarrow> (lat, lon))
      else (lat, lon))"

fun scan_coordinates :: "'f pyfloat \<Rightarrow> 'f metadata \<Rightarrow> 'f option \<times> 'f option \<Rightarrow> 'f option \<times> 'f option"
  where
  "scan_coordinates ops [] acc = acc"
| "scan_coordinates ops ((key, value) # rest) acc =
     scan_coordinates ops rest (coordinates_step ops key value acc)"

definition extract_coordinates :: "'f pyfloat \<Rightarrow> 'f metadata \<Rightarrow> ('f \<times> 'f) option" where
  "extract_coordinates ops metadata =
     (let (lat, lon) = scan_decimal ops metadata (None, None);
          (lat, lon) = (if lat = None \<or> lon = None
                        then scan_coordinates ops metadata (lat, lon) else (lat, lon))
      in case (lat, lon) of (Some la, Some lo) \<Rightarrow> Some (la, lo) | _ \<Rightarrow> None)"

subsection \<open>_analyze_location_type and _coord_to_3words\<close>

text \<open>
  \<open>address.get(k)\<close> is true for a key with a non-empty value.  When the geocoder
  returns no location, no \<open>return\<close> statement is reached and the result is \<open>None\<close>.
\<close>

definition has_component :: "string dict \<Rightarrow> string \<Rightarrow> bool" where
  "has_component d k = truthy (map_of d k)"

definition analyze_location_type :: "'f services \<Rightarrow> 'f pyfloat \<Rightarrow> 'f \<Rightarrow> 'f \<Rightarrow> 'f val" where
  "analyze_location_type srv ops lat lon =
     (case reverse_plain srv (fl_str ops lat @ '', '' @ fl_str ops lon) of
        Inl e \<Rightarrow> VStr ''Unknown''
      | Inr None \<Rightarrow> VNone
      | Inr (Some location) \<Rightarrow>
          (let address = raw_address location in
           if has_component address ''aeroway'' then VStr ''Airport/Transport''
           else if has_component address ''tourism'' then VStr ''Tourist location''
           else if has_component address ''historic'' then VStr ''Historic site''
           else if has_component address ''leisure'' then VStr ''Leisure area''
           else if has_component address ''waterway'' then VStr ''Water area''
           else VStr ''Urban/Residential''))"

definition coord_to_3words :: "'f services \<Rightarrow> 'f pyfloat \<Rightarrow> 'f \<Rightarrow> 'f \<Rightarrow> string" where
  "coord_to_3words srv ops lat lon =
     ''demo.words.'' @ take 8 (md5_hex srv (fl_str ops lat @ fl_str ops lon))"

subsection \<open>_gps_osint_analysis\<close>

definition geocoded_fields :: "location \<Rightarrow> (string \<times> 'f val) list" where
  "geocoded_fields location =
     (let address = raw_address location in
      [(''OSINT_Country'', VStr (get_or address ''country'' ''Unknown'')),
       (''OSINT_Country_Code'', VStr (get_or address ''country_code'' ''Unknown'')),
       (''OSINT_State'', VStr (get_or address ''state'' ''Unknown'')),
       (''OSINT_City'', VStr (get_or address ''city'' (get_or address ''town'' ''Unknown''))),
       (''OSINT_Postcode'', VStr (get_or address ''postcode'' ''Unknown'')),
       (''OSINT_Road'', VStr (get_or address ''road'' ''Unknown'')),
       (''OSINT_Full_Address'', VStr (location.address location))])"

text \<open>The inner \<open>try\<close> around the gazetteer: any exception there is passed over.\<close>

definition gazetteer_fields :: "'f services \<Rightarrow> 'f \<Rightarrow> 'f \<Rightarrow> (string \<times> 'f val) list" where
  "gazetteer_fields srv lat lon =
     (case rg_search srv lat lon of
        Inl e \<Rightarrow> []
      | Inr [] \<Rightarrow> []
      | Inr (result # _) \<Rightarrow>
          [(''OSINT_RG_Country'', VStr (get_or result ''cc'' ''Unknown'')),
           (''OSINT_RG_City'', VStr (get_or result ''name'' ''Unknown'')),
           (''OSINT_RG_Admin1'', VStr (get_or result ''admin1'' ''Unknown'')),
           (''OSINT_RG_Admin2'', VStr (get_or result ''admin2'' ''Unknown''))])"

definition map_link_fields :: "'f services \<Rightarrow> 'f pyfloat \<Rightarrow> 'f \<Rightarrow> 'f \<Rightarrow> (string \<times> 'f val) list"
  where
  "map_link_fields srv ops lat lon =
     (let la = fl_str ops lat; lo = fl_str ops lon in
      [(''OSINT_Google_Maps'', VStr (''https://maps.google.com/?q='' @ la @ '','' @ lo @ ''&z=17'')),
       (''OSINT_OpenStreetMap'',
          VStr (''https://www.openstreetmap.org/?mlat='' @ la @ ''&mlon='' @ lo @ ''&zoom=17'')),
       (''OSINT_Bing_Maps'',
          VStr (''https://bing.com/maps/default.aspx?cp='' @ la @ ''~'' @ lo @ ''&lvl=17'')),
       (''OSINT_Yandex_Maps'', VStr (''https://yandex.ru/maps/?pt='' @ lo @ '','' @ la @ ''&z=17'')),
       (''OSINT_What3Words'',
          VStr (''https://what3words.com///'' @ coord_to_3words srv ops lat lon))])"

definition gps_osint_analysis :: "'f services \<Rightarrow> 'f pyfloat \<Rightarrow> 'f metadata \<Rightarrow> 'f metadata" where
  "gps_osint_analysis srv ops metadata =
     (case extract_coordinates ops metadata of
        None \<Rightarrow> []
      | Some (lat, lon) \<Rightarrow>
          (let gps_data =
             [(''OSINT_Coordinates'', VStr (fl_fmt ops 6 lat @ '', '' @ fl_fmt ops 6 lon))]
           in case reverse_en srv (fl_str ops lat @ '', '' @ fl_str ops lon) of
                Inl e \<Rightarrow> AList.update ''OSINT_GPS_Error'' (VStr e) gps_data
              | Inr location \<Rightarrow>
                  (let gps_data = dict_update gps_data
                         (case location of None \<Rightarrow> [] | Some loc \<Rightarrow> geocoded_fields loc);
                       gps_data = dict_update gps_data (gazetteer_fields srv lat lon);
                       gps_data = dict_update gps_data (map_link_fields srv ops lat lon);
                       gps_data =
                         (if sublist ''GPS GPSAltitude'' (str_metadata srv metadata)
                          then AList.update ''OSINT_Altitude_Analysis''
                                 (VStr ''Altitude data available'') gps_data
                          else gps_data)
                   in AList.update ''OSINT_Location_Type''
                        (analyze_location_type srv ops lat lon) gps_data)))"

subsection \<open>_camera_osint_analysis and _extract_lens_info\<close>

text \<open>
  The scan for make, model and serial: the three variables start as \<open>None\<close>; a branch
  of the \<open>if\<close>/\<open>elif\<close> chain is taken when its marker is inside the lower-cased key and
  its variable is still false (\<open>None\<close> or the empty string).
\<close>

definition camera_step ::
  "'f pyfloat \<Rightarrow> string \<Rightarrow> 'f val \<Rightarrow> string option \<times> string option \<times> string option
     \<Rightarrow> string option \<times> string option \<times> string option" where
  "camera_step ops key value acc =
     (let (make', model, serial) = acc; key_lower = lower key in
      if sublist ''make'' key_lower \<and> \<not> truthy make'
        then (Some (val_str ops value), model, serial)
      else if sublist ''model'' key_lower \<and> \<not> truthy model
        then (make', Some (val_str ops value), serial)
      else if sublist ''serial'' key_lower \<and> \<not> truthy serial
        then (make', model, Some (val_str ops value))
      else (make', model, serial))"

fun camera_scan ::
  "'f pyfloat \<Rightarrow> 'f metadata \<Rightarrow> string option \<times> string option \<times> string option
     \<Rightarrow> string option \<times> string option \<times> string option" where
  "camera_scan ops [] acc = acc"
| "camera_scan ops ((key, value) # rest) acc = camera_scan ops rest (camera_step ops key value acc)"

definition lens_item :: "'f pyfloat \<Rightarrow> string \<Rightarrow> 'f val \<Rightarrow> string list" where
  "lens_item ops key value =
     (let key_lower = lower key in
      if sublist ''lens'' key_lower then [key @ '': '' @ val_str ops value]
      else if sublist ''focal'' key_lower \<and> sublist ''length'' key_lower
        then [''Focal: '' @ val_str ops value]
      else if sublist ''aperture'' key_lower then [''Aperture: '' @ val_str ops value]
      else [])"

fun lens_items :: "'f pyfloat \<Rightarrow> 'f metadata \<Rightarrow> string list" where
  "lens_items ops [] = []"
| "lens_items ops ((key, value) # rest) = lens_item ops key value @ lens_items ops rest"

definition extract_lens_info :: "'f pyfloat \<Rightarrow> 'f metadata \<Rightarrow> string option" where
  "extract_lens_info ops metadata =
     (let lens_data = lens_items ops metadata in
      if lens_data \<noteq> [] then Some (join '' | '' lens_data) else None)"

text \<open>\<open>if c: d[k] = v\<close>, for a run of conditional assignments.\<close>

fun assign_if :: "'v dict \<Rightarrow> (bool \<times> string \<times> 'v) list \<Rightarrow> 'v dict" where
  "assign_if d [] = d"
| "assign_if d ((c, k, v) # rest) = assign_if (if c then AList.update k v d else d) rest"

definition camera_osint_analysis :: "'f services \<Rightarrow> 'f pyfloat \<Rightarrow> 'f metadata \<Rightarrow> 'f metadata"
  where
  "camera_osint_analysis srv ops metadata =
     (let (make', model, serial) = camera_scan ops metadata (None, None, None);
          mk = text_of make'; md = text_of model; sr = text_of serial;
          lens_info = extract_lens_info ops metadata
      in assign_if []
           [(truthy make', ''OSINT_Camera_Make'', VStr mk),
            (truthy model, ''OSINT_Camera_Model'', VStr md),
            (truthy serial, ''OSINT_Camera_Serial'', VStr sr),
            (truthy serial, ''OSINT_Serial_Hash_MD5'', VStr (md5_hex srv sr)),
            (truthy serial, ''OSINT_Serial_Hash_SHA1'', VStr (sha1_hex srv sr)),
            (truthy make' \<and> truthy model, ''OSINT_Device_Fingerprint'', VStr (mk @ '' '' @ md)),
            (truthy make' \<and> truthy model, ''OSINT_Device_Search'',
               VStr (''https://www.google.com/search?q='' @ mk @ ''+'' @ md @ ''+camera'')),
            (truthy lens_info, ''OSINT_Lens_Info'', VStr (text_of lens_info))])"

subsection \<open>_time_analysis\<close>

definition is_timestamp :: "'f pyfloat \<Rightarrow> string \<Rightarrow> 'f val \<Rightarrow> bool" where
  "is_timestamp ops key value =
     (any_in [''date'', ''time''] (lower key)
      \<and> (sublist ''202'' (val_str ops value) \<or> sublist ''201'' (val_str ops value)))"

fun timestamps_of :: "'f pyfloat \<Rightarrow> 'f metadata \<Rightarrow> (string \<times> string) list" where
  "timestamps_of ops [] = []"
| "timestamps_of ops ((key, value) # rest) =
     (if is_timestamp ops key value then (key, val_str ops value) # timestamps_of ops rest
      else timestamps_of ops rest)"

fun time_fields :: "nat \<Rightarrow> (string \<times> string) list \<Rightarrow> (string \<times> 'f val) list" where
  "time_fields i [] = []"
| "time_fields i ((key, value) # rest) =
     (''OSINT_Time_'' @ show_nat (i + 1), VStr (key @ '': '' @ value)) # time_fields (i + 1) rest"

fun first_timezone :: "'f metadata \<Rightarrow> 'f val option" where
  "first_timezone [] = None"
| "first_timezone ((key, value) # rest) =
     (if sublist ''timezone'' (lower key) then Some value else first_timezone rest)"

definition time_analysis :: "'f pyfloat \<Rightarrow> 'f metadata \<Rightarrow> 'f metadata" where
  "time_analysis ops metadata =
     (let timestamps = timestamps_of ops metadata;
          time_data =
            (if timestamps \<noteq> [] then
               (let d = dict_update [(''OSINT_Timestamps_Found'', VInt (int (length timestamps)))]
                          (time_fields 0 (take 5 timestamps))
                in if length timestamps > 1
                   then AList.update ''OSINT_Time_Analysis''
                          (VStr ''Multiple timestamps - timeline available'') d
                   else d)
             else [])
      in case first_timezone metadata of
           Some value \<Rightarrow> AList.update ''OSINT_Timezone'' value time_data
         | None \<Rightarrow> time_data)"

subsection \<open>_forensic_analysis\<close>

definition forensic_analysis :: "'f services \<Rightarrow> string \<Rightarrow> 'f metadata" where
  "forensic_analysis srv image_path =
     (let failed = (\<lambda>d e. AList.update ''OSINT_Forensic_Error'' (VStr e) d) in
      case read_file srv image_path of
        Inl e \<Rightarrow> failed [] e
      | Inr file_data \<Rightarrow>
          (let d = [(''OSINT_MD5_Hash'', VStr (md5_hex srv file_data)),
                    (''OSINT_SHA1_Hash'', VStr (sha1_hex srv file_data)),
                    (''OSINT_SHA256_Hash'', VStr (sha256_hex srv file_data))]
           in case os_stat srv image_path of
                Inl e \<Rightarrow> failed d e
              | Inr file_stats \<Rightarrow>
                  (case assign_steps d
                          [(''OSINT_File_Size_Bytes'', Inr (VInt (st_size file_stats))),
                           (''OSINT_File_Created'',
                              map_sum id VStr (iso_timestamp srv (st_ctime file_stats))),
                           (''OSINT_File_Modified'',
                              map_sum id VStr (iso_timestamp srv (st_mtime file_stats)))] of
                     (d, Some e) \<Rightarrow> failed d e
                   | (d, None) \<Rightarrow>
                       (let filename = basename srv image_path in
                        assign_if d
                          [(True, ''OSINT_Filename_Analysis'', VStr filename),
                           (any_in [''img'', ''dsc'', ''photo'', ''pic''] (lower filename),
                            ''OSINT_Filename_Pattern'', VStr ''Common camera naming pattern'')]))))"

subsection \<open>_network_analysis\<close>

definition network_step :: "'f pyfloat \<Rightarrow> string \<Rightarrow> 'f val \<Rightarrow> 'f metadata \<Rightarrow> 'f metadata" where
  "network_step ops key value network_data =
     (let str_value = val_str ops value in
      assign_if network_data
        [(sublist ''http'' (lower str_value), ''OSINT_URL_In_'' @ key, VStr str_value),
         (sublist ''@'' str_value \<and> sublist ''.'' str_value,
          ''OSINT_Email_Like_In_'' @ key, VStr str_value)])"

fun network_scan :: "'f pyfloat \<Rightarrow> 'f metadata \<Rightarrow> 'f metadata \<Rightarrow> 'f metadata" where
  "network_scan ops [] network_data = network_data"
| "network_scan ops ((key, value) # rest) network_data =
     network_scan ops rest (network_step ops key value network_data)"

definition network_analysis :: "'f pyfloat \<Rightarrow> 'f metadata \<Rightarrow> 'f metadata" where
  "network_analysis ops metadata = network_scan ops metadata []"

subsection \<open>_create_osm_map\<close>

definition create_osm_map :: "'f services \<Rightarrow> 'f pyfloat \<Rightarrow> 'f metadata \<Rightarrow> string option" where
  "create_osm_map srv ops metadata =
     (case extract_coordinates ops metadata of
        None \<Rightarrow> None
      | Some (lat, lon) \<Rightarrow>
          (case gettempdir srv of
             Inl e \<Rightarrow> None
           | Inr temp_dir \<Rightarrow>
               (let map_path = path_join srv temp_dir
                      (''metadate_map_'' @ md5_hex srv (fl_str ops lat @ fl_str ops lon) @ ''.html'')
                in case render_map srv lat lon map_path of
                     Inl e \<Rightarrow> None
                   | Inr _ \<Rightarrow> Some map_path)))"

subsection \<open>enhance_metadata\<close>

text \<open>
  \<open>enhanced\<close> starts as a copy of the record and is updated with the dictionary of
  each analysis in turn.  Each of the six analyses catches its own exceptions and
  returns a dictionary (or \<open>None\<close> for the map), so no exception reaches the handler of
  \<open>enhance_metadata\<close>, which would add \<open>OSINT_Error\<close>.
\<close>

definition enhance_metadata ::
  "'f services \<Rightarrow> 'f pyfloat \<Rightarrow> 'f metadata \<Rightarrow> string \<Rightarrow> 'f metadata" where
  "enhance_metadata srv ops metadata image_path =
     (let enhanced = metadata;
          enhanced = dict_update enhanced (gps_osint_analysis srv ops metadata);
          enhanced = dict_update enhanced (camera_osint_analysis srv ops metadata);
          enhanced = dict_update enhanced (time_analysis ops metadata);
          enhanced = dict_update enhanced (forensic_analysis srv image_path);
          enhanced = dict_update enhanced (network_analysis ops metadata);
          map_path = create_osm_map srv ops metadata
      in if truthy map_path
         then AList.update ''OSINT_Map_File'' (VStr (text_of map_path)) enhanced
         else enhanced)"

section \<open>Readings of the specification\<close>

text \<open>
  The first tier of coordinate resolution in the words of the specification: the
  first key, in record order, that satisfies the key test and whose value parses as a
  float gives the component.  \<open>last_successful_parse\<close> is the same with the last such
  key.  The key test is on the lower-cased key.
\<close>

fun first_successful_parse :: "'f pyfloat \<Rightarrow> (string \<Rightarrow> bool) \<Rightarrow> 'f metadata \<Rightarrow> 'f option"
  where
  "first_successful_parse ops P [] = None"
| "first_successful_parse ops P ((key, value) # rest) =
     (case (if P (lower key) then val_float ops value else None) of
        Some x \<Rightarrow> Some x
      | None \<Rightarrow> first_successful_parse ops P rest)"

fun last_successful_parse :: "'f pyfloat \<Rightarrow> (string \<Rightarrow> bool) \<Rightarrow> 'f metadata \<Rightarrow> 'f option"
  where
  "last_successful_parse ops P [] = None"
| "last_successful_parse ops P ((key, value) # rest) =
     (case last_successful_parse ops P rest of
        Some x \<Rightarrow> Some x
      | None \<Rightarrow> (if P (lower key) then val_float ops value else None))"

definition latitude_key :: "string \<Rightarrow> bool" where
  "latitude_key k = (sublist ''gps'' k \<and> sublist ''decimal'' k \<and> sublist ''latitude'' k)"

definition longitude_key :: "string \<Rightarrow> bool" where
  "longitude_key k = (sublist ''gps'' k \<and> sublist ''decimal'' k \<and> sublist ''longitude'' k)"

definition longitude_only_key :: "string \<Rightarrow> bool" where
  "longitude_only_key k = (longitude_key k \<and> \<not> sublist ''latitude'' k)"


fun first_nonempty :: "'f pyfloat \<Rightarrow> string \<Rightarrow> 'f metadata \<Rightarrow> string option" where
  "first_nonempty ops marker [] = None"
| "first_nonempty ops marker ((key, value) # rest) =
     (if sublist marker (lower key) \<and> val_str ops value \<noteq> [] then Some (val_str ops value)
      else first_nonempty ops marker rest)"



section \<open>A sample environment\<close>


section \<open>gui.py: the category classifier of show_metadata\<close>







section \<open>Properties of the string helpers\<close>

lemma set_strip: "set (strip s) \<subseteq> set s"
proof -
  have "set (strip s) = set (dropWhile is_space (rev (dropWhile is_space s)))"
    by (simp add: strip_def)
  also have "\<dots> \<subseteq> set (rev (dropWhile is_space s))"
    by (auto dest: set_dropWhileD)
  also have "\<dots> \<subseteq> set s"
    by (auto dest: set_dropWhileD)
  finally show ?thesis .
qed

text \<open>Rules that evaluate the string tests on literal keys.\<close>

lemma lower_char_Char:
  "lower_char (Char b0 b1 b2 b3 b4 b5 b6 b7) =
     (if \<not> b7 \<and> b6 \<and> \<not> b5 \<and> (b0 \<or> b1 \<or> b2 \<or> b3 \<or> b4) \<and> \<not> (b4 \<and> b3 \<and> (b2 \<or> (b1 \<and> b0)))
      then Char b0 b1 b2 b3 b4 True b6 b7 else Char b0 b1 b2 b3 b4 b5 b6 b7)"
  by (cases b0; cases b1; cases b2; cases b3; cases b4; cases b5; cases b6; cases b7)
     (simp_all add: lower_char_def)

lemmas str_eval = lower_def lower_char_Char sublist_code any_in_def

section \<open>Properties of the dictionary helpers\<close>


section \<open>Value normalisation\<close>

text \<open>
  C7.  For every byte sequence \<open>B\<close> made of null bytes and spaces only,
  \<open>_process_exif_value\<close> returns the placeholder \<open>binary_data_N_bytes\<close>, \<open>N\<close> the
  length of \<open>B\<close> itself, whatever was stripped from the decoded text.
\<close>

theorem binary_placeholder:
  assumes "set B \<subseteq> {CHR 0x00, CHR '' ''}"
  shows "process_exif_value objs (RBytes B) =
           Some (''binary_data_'' @ show_nat (length B) @ ''_bytes'')"
proof -
  from assms have "list_all is_ascii B"
    by (auto simp: list_all_iff is_ascii_def)
  then have dec: "decode_utf8_ignore objs B = B"
    by (simp add: decode_utf8_ignore_def)
  from assms set_strip [of B]
  have "list_all (\<lambda>c. c \<in> set [CHR 0x00, CHR '' '']) (strip B)"
    by (auto simp: list_all_iff)
  with dec show ?thesis by (simp add: Let_def)
qed

theorem binary_placeholder_witness:
  "\<forall>objs. process_exif_value objs (RBytes [CHR 0x00, CHR '' '', CHR 0x00, CHR 0x00]) =
      Some ''binary_data_4_bytes''"
proof
  fix objs :: "'a pyobjects"
  have n: "show_nat (length [CHR 0x00, CHR '' '', CHR 0x00, CHR 0x00]) = ''4''"
    by code_simp
  have "set [CHR 0x00, CHR '' '', CHR 0x00, CHR 0x00] \<subseteq> {CHR 0x00, CHR '' ''}"
    by simp
  from binary_placeholder [OF this, of objs]
  show "process_exif_value objs (RBytes [CHR 0x00, CHR '' '', CHR 0x00, CHR 0x00]) =
      Some ''binary_data_4_bytes''"
    unfolding n by simp
qed

section \<open>DMS to decimal conversion\<close>

text \<open>
  C6.  \<open>_convert_gps_coord\<close>: a triple gives \<open>d + m/60 + s/3600\<close>, a pair
  \<open>d + m/60\<close>, a singleton its value, an empty sequence \<open>0.0\<close>; a value without a
  length, and any element among those used on which \<open>float\<close> raises, give \<open>0.0\<close>.
  The sums and quotients are those of the float operations.
\<close>

theorem convert_gps_coord_cases:
  "(tf d = Some a \<and> tf m = Some b \<and> tf s = Some c \<longrightarrow>
      convert_gps_coord ops tf (Seq [d, m, s]) =
        fl_add ops (fl_add ops a (fl_div ops b (fl_lit ops 60))) (fl_div ops c (fl_lit ops 3600)))
   \<and> (tf d = Some a \<and> tf m = Some b \<longrightarrow>
      convert_gps_coord ops tf (Seq [d, m]) = fl_add ops a (fl_div ops b (fl_lit ops 60)))
   \<and> (tf d = Some a \<longrightarrow> convert_gps_coord ops tf (Seq [d]) = a)
   \<and> convert_gps_coord ops tf (Seq []) = fl_lit ops 0
   \<and> convert_gps_coord ops tf NoLen = fl_lit ops 0
   \<and> ((\<exists>x \<in> set (take 3 vs). tf x = None) \<longrightarrow>
      convert_gps_coord ops tf (Seq vs) = fl_lit ops 0)"
proof -
  have fail: "convert_gps_coord ops tf (Seq vs) = fl_lit ops 0"
    if "x \<in> set (take 3 vs)" "tf x = None" for x
  proof -
    consider "vs = []" | u where "vs = [u]" | u v where "vs = [u, v]"
      | u v w r where "vs = u # v # w # r"
      by (metis neq_Nil_conv)
    then show ?thesis
      using that by cases (auto split: option.splits)
  qed
  have c1: "tf d = Some a \<and> tf m = Some b \<and> tf s = Some c \<longrightarrow>
      convert_gps_coord ops tf (Seq [d, m, s]) =
        fl_add ops (fl_add ops a (fl_div ops b (fl_lit ops 60))) (fl_div ops c (fl_lit ops 3600))"
    by simp
  have c2: "tf d = Some a \<and> tf m = Some b \<longrightarrow>
      convert_gps_coord ops tf (Seq [d, m]) = fl_add ops a (fl_div ops b (fl_lit ops 60))"
    by simp
  have c3: "tf d = Some a \<longrightarrow> convert_gps_coord ops tf (Seq [d]) = a"
    by simp
  have c4: "convert_gps_coord ops tf (Seq []) = fl_lit ops 0"
    by simp
  have c5: "convert_gps_coord ops tf NoLen = fl_lit ops 0"
    by simp
  have c6: "(\<exists>x \<in> set (take 3 vs). tf x = None) \<longrightarrow>
      convert_gps_coord ops tf (Seq vs) = fl_lit ops 0"
    using fail by blast
  show ?thesis
    by (intro conjI) (rule c1 c2 c3 c4 c5 c6)+
qed

theorem convert_gps_coord_cases_witness:
  "ratio_float (Ratio 40 1) = Some 40
   \<and> ratio_float (Ratio 26 1) = Some 26
   \<and> ratio_float (Ratio 468 10) = Some (3293257227514675 / 70368744177664)
   \<and> convert_gps_coord (binary64 Map.empty) ratio_float
         (Seq [Ratio 40 1, Ratio 26 1, Ratio 468 10]) = 2846157683257857 / 70368744177664
   \<and> convert_gps_coord (binary64 Map.empty) ratio_float (Seq [Ratio 40 1, Ratio 26 1]) =
         5690485779167095 / 140737488355328
   \<and> convert_gps_coord (binary64 Map.empty) ratio_float (Seq [Ratio 40 1]) = 40
   \<and> ratio_float (Ratio 26 0) = None
   \<and> convert_gps_coord (binary64 Map.empty) ratio_float
         (Seq [Ratio 40 1, Ratio 26 0, Ratio 468 10]) = 0"
proof -
  let ?ops = "binary64 Map.empty"
  have d: "ratio_float (Ratio 40 1) = Some 40" by code_simp
  have m: "ratio_float (Ratio 26 1) = Some 26" by code_simp
  have s: "ratio_float (Ratio 468 10) = Some (3293257227514675 / 70368744177664)"
    by code_simp
  have z: "ratio_float (Ratio 26 0) = None" by simp
  have e3: "fl_add ?ops (fl_add ?ops 40 (fl_div ?ops 26 (fl_lit ?ops 60)))
              (fl_div ?ops (3293257227514675 / 70368744177664) (fl_lit ?ops 3600)) =
            2846157683257857 / 70368744177664"
    by code_simp
  have e2: "fl_add ?ops 40 (fl_div ?ops 26 (fl_lit ?ops 60)) =
            5690485779167095 / 140737488355328"
    by code_simp
  have e0: "fl_lit ?ops 0 = 0" by code_simp
  have x: "\<exists>x \<in> set (take 3 [Ratio 40 1, Ratio 26 0, Ratio 468 10]). ratio_float x = None"
    by simp
  note t = convert_gps_coord_cases [of ratio_float "Ratio 40 1" 40 "Ratio 26 1" 26
      "Ratio 468 10" "3293257227514675 / 70368744177664" ?ops
      "[Ratio 40 1, Ratio 26 0, Ratio 468 10]"]
  from t d m s have "convert_gps_coord ?ops ratio_float
         (Seq [Ratio 40 1, Ratio 26 1, Ratio 468 10]) = 2846157683257857 / 70368744177664"
    unfolding e3 by blast
  moreover from t d m have "convert_gps_coord ?ops ratio_float (Seq [Ratio 40 1, Ratio 26 1]) =
         5690485779167095 / 140737488355328"
    unfolding e2 by blast
  moreover from t d have "convert_gps_coord ?ops ratio_float (Seq [Ratio 40 1]) = 40"
    by blast
  moreover from t x have "convert_gps_coord ?ops ratio_float
         (Seq [Ratio 40 1, Ratio 26 0, Ratio 468 10]) = 0"
    unfolding e0 by blast
  ultimately show ?thesis using d m s z by blast
qed

section \<open>Coordinate resolution\<close>

lemma scan_decimal_last:
  "scan_decimal ops md (lat, lon) =
     (case last_successful_parse ops latitude_key md of Some x \<Rightarrow> Some x | None \<Rightarrow> lat,
      case last_successful_parse ops longitude_only_key md of Some x \<Rightarrow> Some x | None \<Rightarrow> lon)"
proof (induction md arbitrary: lat lon)
  case Nil
  then show ?case by simp
next
  case (Cons p md)
  obtain key v where p: "p = (key, v)" by (cases p)
  show ?case
    unfolding p
    by (auto simp: Cons.IH decimal_step_def Let_def latitude_key_def longitude_key_def
        longitude_only_key_def split: option.splits)
qed

lemma scan_coordinates_none:
  "\<forall>(k, v) \<in> set md. \<not> sublist ''coordinates'' (lower k) \<Longrightarrow>
     scan_coordinates ops md (lat, lon) = (lat, lon)"
  by (induction md arbitrary: lat lon) (auto simp: coordinates_step_def)

text \<open>
  C3, as the code has it.  \<open>_extract_coordinates\<close> is a two-tier search.  In the
  first tier each component is the float of the last key, in record order, that
  contains \<open>gps\<close>, \<open>decimal\<close> and \<open>latitude\<close> (for the longitude: \<open>longitude\<close> and
  not \<open>latitude\<close>) and whose value parses; a value that does not parse is passed
  over.  The \<open>coordinates\<close> keys are scanned only if a component is still unresolved,
  and a record without such a key gets nothing from the second tier.  A pair is
  returned only if both components are resolved, and the function, being total,
  never raises.
\<close>

theorem extract_coordinates_last_parse:
  "extract_coordinates ops md =
     (case (last_successful_parse ops latitude_key md,
            last_successful_parse ops longitude_only_key md) of
        (Some la, Some lo) \<Rightarrow> Some (la, lo)
      | (lat, lon) \<Rightarrow>
          (case scan_coordinates ops md (lat, lon) of
             (Some la, Some lo) \<Rightarrow> Some (la, lo)
           | _ \<Rightarrow> None))
   \<and> ((\<forall>(k, v) \<in> set md. \<not> sublist ''coordinates'' (lower k)) \<longrightarrow>
        extract_coordinates ops md =
          (case (last_successful_parse ops latitude_key md,
                 last_successful_parse ops longitude_only_key md) of
             (Some la, Some lo) \<Rightarrow> Some (la, lo)
           | _ \<Rightarrow> None))"
proof -
  have a: "extract_coordinates ops md =
     (case (last_successful_parse ops latitude_key md,
            last_successful_parse ops longitude_only_key md) of
        (Some la, Some lo) \<Rightarrow> Some (la, lo)
      | (lat, lon) \<Rightarrow>
          (case scan_coordinates ops md (lat, lon) of
             (Some la, Some lo) \<Rightarrow> Some (la, lo)
           | _ \<Rightarrow> None))"
    by (simp add: extract_coordinates_def scan_decimal_last split: option.splits prod.splits)
  show ?thesis
  proof (intro conjI impI)
    show "extract_coordinates ops md =
     (case (last_successful_parse ops latitude_key md,
            last_successful_parse ops longitude_only_key md) of
        (Some la, Some lo) \<Rightarrow> Some (la, lo)
      | (lat, lon) \<Rightarrow>
          (case scan_coordinates ops md (lat, lon) of
             (Some la, Some lo) \<Rightarrow> Some (la, lo)
           | _ \<Rightarrow> None))" by (rule a)
  next
    assume "\<forall>(k, v) \<in> set md. \<not> sublist ''coordinates'' (lower k)"
    then have "scan_coordinates ops md (lat, lon) = (lat, lon)" for lat lon
      by (rule scan_coordinates_none)
    then show "extract_coordinates ops md =
          (case (last_successful_parse ops latitude_key md,
                 last_successful_parse ops longitude_only_key md) of
             (Some la, Some lo) \<Rightarrow> Some (la, lo)
           | _ \<Rightarrow> None)"
      unfolding a by (simp split: option.splits)
  qed
qed

theorem extract_coordinates_last_parse_witness:
  "last_successful_parse (binary64 Map.empty) latitude_key
      [(''GPS_Latitude_Decimal'', VFloat 1), (''GPS_Dest_Latitude_Decimal'', VFloat 2),
          (''GPS_Longitude_Decimal'', VFloat 3)] = Some 2
   \<and> last_successful_parse (binary64 Map.empty) longitude_only_key
      [(''GPS_Latitude_Decimal'', VFloat 1), (''GPS_Dest_Latitude_Decimal'', VFloat 2),
          (''GPS_Longitude_Decimal'', VFloat 3)] = Some 3
   \<and> extract_coordinates (binary64 Map.empty)
      [(''GPS_Latitude_Decimal'', VFloat 1), (''GPS_Dest_Latitude_Decimal'', VFloat 2),
          (''GPS_Longitude_Decimal'', VFloat 3)] = Some (2, 3)"
proof -
  let ?md = "[(''GPS_Latitude_Decimal'', VFloat 1), (''GPS_Dest_Latitude_Decimal'', VFloat 2),
          (''GPS_Longitude_Decimal'', VFloat 3)] :: rat metadata"
  have h: "\<forall>(k, v) \<in> set ?md. \<not> sublist ''coordinates'' (lower k)"
    by (simp add: str_eval)
  have a: "last_successful_parse (binary64 Map.empty) latitude_key ?md = Some 2"
    by (simp add: latitude_key_def str_eval)
  have b: "last_successful_parse (binary64 Map.empty) longitude_only_key ?md = Some 3"
    by (simp add: longitude_only_key_def longitude_key_def str_eval)
  from extract_coordinates_last_parse [of "binary64 Map.empty" ?md] h
  have "extract_coordinates (binary64 Map.empty) ?md =
          (case (last_successful_parse (binary64 Map.empty) latitude_key ?md,
                 last_successful_parse (binary64 Map.empty) longitude_only_key ?md) of
             (Some la, Some lo) \<Rightarrow> Some (la, lo)
           | _ \<Rightarrow> None)"
    by blast
  then show ?thesis
    unfolding a b by simp
qed

text \<open>
  C3, as the specification states it, fails: with two latitude keys that both parse,
  the first successful parse is 1, and the latitude returned is 2.
\<close>

theorem first_parse_wins_counterexample:
  "first_successful_parse (binary64 Map.empty) latitude_key
      [(''GPS_Latitude_Decimal'', VFloat 1), (''GPS_Dest_Latitude_Decimal'', VFloat 2),
          (''GPS_Longitude_Decimal'', VFloat 3)] = Some 1
   \<and> extract_coordinates (binary64 Map.empty)
      [(''GPS_Latitude_Decimal'', VFloat 1), (''GPS_Dest_Latitude_Decimal'', VFloat 2),
          (''GPS_Longitude_Decimal'', VFloat 3)] = Some (2, 3)"
  by (simp add: extract_coordinates_def decimal_step_def latitude_key_def str_eval)

section \<open>Camera analysis\<close>


lemma first_nonempty_Some: "first_nonempty ops m md = Some s \<Longrightarrow> s \<noteq> []"
  by (induction md) (auto split: if_splits)




section \<open>Properties of the classifier\<close>






end
